theory Spec2Isabelle
  imports Main "HOL-Library.Char_ord" "HOL-Library.List_Lexorder" "HOL-Library.Sublist"
    "HOL-Library.Multiset"
begin

section \<open>Man page generation for a cobra command tree (man/man.go)\<close>

text \<open>
  The Go package walks a tree of \<^verbatim>\<open>cobra.Command\<close> values and writes one troff page per
  command. The embedding below follows \<^verbatim>\<open>man.go\<close> function by function. Go strings are
  byte strings, modelled as \<^typ>\<open>string\<close>. The backslash and the double quote cannot be
  written inside a HOL string literal, so they are spelled by their byte values.
\<close>

abbreviation BSL :: string where "BSL \<equiv> [CHR 0x5C]"
abbreviation DQ :: string where "DQ \<equiv> [CHR 0x22]"

subsection \<open>The collaborator's view: flags and commands\<close>

text \<open>
  \<^verbatim>\<open>pflag.Flag\<close>, with the fields \<^verbatim>\<open>man.go\<close> reads. A \<^verbatim>\<open>pflag.FlagSet\<close> is the list
  of its flags in the order \<^verbatim>\<open>VisitAll\<close> visits them; \<^verbatim>\<open>HasFlags()\<close> is then "the list is
  not empty".
\<close>

record Flag =
  flag_Name :: string
  flag_Shorthand :: string
  flag_Usage :: string
  flag_DefValue :: string
  flag_NoOptDefVal :: string
  flag_Deprecated :: string
  flag_Hidden :: bool
  flag_ShorthandDeprecated :: string

text \<open>
  \<^verbatim>\<open>cobra.Command\<close>: the values the library's accessors return for one node
  (\<^verbatim>\<open>Name()\<close>, \<^verbatim>\<open>Short\<close>, \<^verbatim>\<open>Long\<close>, \<^verbatim>\<open>Example\<close>, \<^verbatim>\<open>Annotations\<close>, \<^verbatim>\<open>UseLine()\<close>,
  \<^verbatim>\<open>Flags()\<close>, \<^verbatim>\<open>NonInheritedFlags()\<close>, \<^verbatim>\<open>IsAvailableCommand()\<close>,
  \<^verbatim>\<open>IsAdditionalHelpTopicCommand()\<close>) and the children \<^verbatim>\<open>Commands()\<close> yields. The
  parent link of the Go struct is not stored in the node: every function that needs it
  takes the chain of ancestors, nearest first, so \<^verbatim>\<open>HasParent()\<close> is "the chain is not
  empty" and \<^verbatim>\<open>Parent()\<close> is its head.
\<close>

record CommandInfo =
  cmd_Name :: string
  cmd_Short :: string
  cmd_Long :: string
  cmd_Example :: string
  cmd_Annotations :: "string \<rightharpoonup> string"
  cmd_UseLine :: string
  cmd_Flags :: "Flag list"
  cmd_NonInheritedFlags :: "Flag list"
  cmd_IsAvailableCommand :: bool
  cmd_IsAdditionalHelpTopicCommand :: bool

datatype Command = Command (cmd_info: CommandInfo) (cmd_Commands: "Command list")

text \<open>A Go map read at a missing key gives the empty string.\<close>

definition annotation :: "Command \<Rightarrow> string \<Rightarrow> string" where
  "annotation cmd k = (case cmd_Annotations (cmd_info cmd) k of None \<Rightarrow> [] | Some v \<Rightarrow> v)"

text \<open>
  \<^verbatim>\<open>cmd.CommandPath()\<close>: the parent's path, a space, and the node's name; the name alone at
  a node without parent.
\<close>

fun CommandPath :: "Command list \<Rightarrow> Command \<Rightarrow> string" where
  "CommandPath [] cmd = cmd_Name (cmd_info cmd)"
| "CommandPath (p # ps) cmd = CommandPath ps p @ '' '' @ cmd_Name (cmd_info cmd)"

subsection \<open>Options, the page record, errors\<close>

type_synonym time = int

record GenerateManOptions =
  opt_ProgramName :: string
  opt_Section :: string
  opt_CenterFooter :: string
  opt_Date :: "time option"
  opt_LeftFooter :: string
  opt_CenterHeader :: string
  opt_Files :: string
  opt_Bugs :: string
  opt_Environment :: string
  opt_Author :: string
  opt_Directory :: string
  opt_CommandSeparator :: string
  opt_GenSeprateInheritedFlags :: bool
  opt_UseTemplate :: string

record manStruct =
  ProgramName :: string
  Section :: string
  CenterFooter :: string
  LeftFooter :: string
  CenterHeader :: string
  Name :: string
  UseLine :: string
  CommandPath_field :: string
  Description :: string
  SynFlags :: string
  HasFlags :: bool
  Flags :: string
  HasInheritedFlags :: bool
  InheritedFlags :: string
  HasSeeAlso :: bool
  SeeAlsos :: string
  HasAuthor :: bool
  Author :: string
  HasEnvironment :: bool
  Environment :: string
  HasFiles :: bool
  Files :: string
  HasBugs :: bool
  Bugs :: string
  HasExamples :: bool
  Examples :: string

text \<open>\<^verbatim>\<open>values := manStruct{}\<close>: every string empty, every boolean false.\<close>

definition manStruct_zero :: manStruct where
  "manStruct_zero = \<lparr>ProgramName = [], Section = [], CenterFooter = [], LeftFooter = [],
     CenterHeader = [], Name = [], UseLine = [], CommandPath_field = [], Description = [],
     SynFlags = [], HasFlags = False, Flags = [], HasInheritedFlags = False,
     InheritedFlags = [], HasSeeAlso = False, SeeAlsos = [], HasAuthor = False, Author = [],
     HasEnvironment = False, Environment = [], HasFiles = False, Files = [],
     HasBugs = False, Bugs = [], HasExamples = False, Examples = []\<rparr>"

datatype error =
  CreateError string
| WriteError string
| TemplateParseError string
| TemplateExecError string

text \<open>
  A parsed template, executed on a page record, gives the text it produced and the error
  that stopped it, if any. A writer tells, for the data handed to it, whether the write
  fails and after how many bytes. The file system is the list of the files created so
  far, oldest first, each with the bytes that reached it.
\<close>

type_synonym template = "manStruct \<Rightarrow> string \<times> error option"
type_synonym writer = "string \<Rightarrow> (nat \<times> error) option"
type_synonym fs = "(string \<times> string) list"

subsection \<open>What the package calls and \<^verbatim>\<open>src/\<close> does not hold\<close>

text \<open>
  \<^verbatim>\<open>backslashify\<close> and \<^verbatim>\<open>simpleToTroff\<close> are functions of the package that are called in
  \<^verbatim>\<open>man.go\<close> and defined elsewhere; they are parameters of the model.
\<close>

record helpers =
  backslashify :: "string \<Rightarrow> string"
  simpleToTroff :: "string \<Rightarrow> string"

text \<open>
  The operating system and the Go standard library: \<^verbatim>\<open>os.Create\<close> (on the files created
  so far and a path), the writer of a created file, \<^verbatim>\<open>template.Parse\<close>,
  \<^verbatim>\<open>time.Now\<close>, \<^verbatim>\<open>Time.Format("Jan 2006")\<close>, \<^verbatim>\<open>filepath.Join\<close> of two elements, and what
  \<^verbatim>\<open>fmt\<close> prints for a directive other than \<^verbatim>\<open>%s\<close> and \<^verbatim>\<open>%%\<close> (from the format after the
  percent sign and the operands not yet used).
\<close>

record world =
  os_Create :: "fs \<Rightarrow> string \<Rightarrow> error option"
  file_Write :: "string \<Rightarrow> writer"
  template_Parse :: "string \<Rightarrow> error + template"
  time_Now :: time
  time_Format :: "time \<Rightarrow> string"
  filepath_Join :: "string \<Rightarrow> string \<Rightarrow> string"
  fmt_verb :: "string \<Rightarrow> string list \<Rightarrow> string"

subsection \<open>Standard library functions used on strings\<close>

text \<open>\<^verbatim>\<open>strings.Replace(s, " ", new, -1)\<close>: every space becomes \<open>new\<close>.\<close>

definition Replace_space :: "string \<Rightarrow> string \<Rightarrow> string" where
  "Replace_space s new = concat (map (\<lambda>c. if c = CHR '' '' then new else [c]) s)"

text \<open>\<^verbatim>\<open>strings.Join(elems, sep)\<close>.\<close>

fun Join :: "string list \<Rightarrow> string \<Rightarrow> string" where
  "Join [] sep = []"
| "Join [x] sep = x"
| "Join (x # y # ys) sep = x @ sep @ Join (y # ys) sep"

text \<open>\<^verbatim>\<open>strings.TrimRight(s, cutset)\<close>: the trailing bytes that are in the cutset go.\<close>

definition TrimRight :: "string \<Rightarrow> string \<Rightarrow> string" where
  "TrimRight s cutset = rev (dropWhile (\<lambda>c. c \<in> set cutset) (rev s))"

text \<open>
  \<^verbatim>\<open>fmt.Sprintf\<close> on string operands. \<^verbatim>\<open>%s\<close> prints the next operand, or
  \<^verbatim>\<open>%!s(MISSING)\<close> when none is left; \<^verbatim>\<open>%%\<close> prints a percent sign; a percent sign that
  ends the format prints \<^verbatim>\<open>%!(NOVERB)\<close>; operands left at the end are reported as
  \<^verbatim>\<open>%!(EXTRA string=..., string=...)\<close>. Every other directive (flags, width, precision,
  operand index, other verbs) is left to \<open>fmt_verb\<close>.
\<close>

fun Sprintf :: "world \<Rightarrow> string \<Rightarrow> string list \<Rightarrow> string" where
  "Sprintf w [] args =
     (if args = [] then []
      else ''%!(EXTRA '' @ Join (map (\<lambda>a. ''string='' @ a) args) '', '' @ '')'')"
| "Sprintf w (c # fmt) args =
     (if c \<noteq> CHR ''%'' then c # Sprintf w fmt args
      else (case fmt of
              [] \<Rightarrow> ''%!(NOVERB)'' @ Sprintf w [] args
            | v # fmt' \<Rightarrow>
                if v = CHR ''s'' then
                  (case args of
                     [] \<Rightarrow> ''%!s(MISSING)'' @ Sprintf w fmt' []
                   | a # as \<Rightarrow> a @ Sprintf w fmt' as)
                else if v = CHR ''%'' then CHR ''%'' # Sprintf w fmt' args
                else fmt_verb w fmt args))"

subsection \<open>Flag formatting: \<^verbatim>\<open>printSynFlags\<close> and \<^verbatim>\<open>printFlags\<close>\<close>

text \<open>The callback of \<^verbatim>\<open>printSynFlags\<close>, applied to the buffer and one flag.\<close>

definition printSynFlags_visit :: "world \<Rightarrow> helpers \<Rightarrow> string \<Rightarrow> Flag \<Rightarrow> string" where
  "printSynFlags_visit w h buf flag =
     (if length (flag_Deprecated flag) > 0 \<or> flag_Hidden flag then buf
      else if length (flag_Shorthand flag) > 0 \<and> length (flag_ShorthandDeprecated flag) = 0
        then buf @ Sprintf w (''.RB [ '' @ BSL @ ''-%s ]\<newline>'') [flag_Shorthand flag]
        else buf @ Sprintf w (''.RB [ '' @ BSL @ ''-'' @ BSL @ ''-%s ]\<newline>'')
                     [backslashify h (flag_Name flag)])"

definition printSynFlags :: "world \<Rightarrow> helpers \<Rightarrow> string \<Rightarrow> Flag list \<Rightarrow> string" where
  "printSynFlags w h buf flags = foldl (printSynFlags_visit w h) buf flags"

text \<open>
  The callback of \<^verbatim>\<open>printFlags\<close>. The flag's shorthand and name become part of the
  format string that the last \<^verbatim>\<open>Sprintf\<close> interprets.
\<close>

definition printFlags_format :: "world \<Rightarrow> helpers \<Rightarrow> Flag \<Rightarrow> string" where
  "printFlags_format w h flag =
     (let format = ''.TP\<newline>'';
          format =
            (if length (flag_Shorthand flag) > 0 \<and> length (flag_ShorthandDeprecated flag) = 0
             then format @ Sprintf w (BSL @ ''fB'' @ BSL @ ''-%s'' @ BSL @ ''fP, '' @ BSL @ ''fB''
                                        @ BSL @ ''-'' @ BSL @ ''-%s'' @ BSL @ ''fP'')
                             [flag_Shorthand flag, backslashify h (flag_Name flag)]
             else format @ Sprintf w (BSL @ ''fB'' @ BSL @ ''-'' @ BSL @ ''-%s'' @ BSL @ ''fP'')
                             [backslashify h (flag_Name flag)]);
          format = (if length (flag_NoOptDefVal flag) > 0 then format @ ''['' else format);
          format = format @ ''='' @ BSL @ ''fI%s'' @ BSL @ ''fR'';
          format = (if length (flag_NoOptDefVal flag) > 0 then format @ '']'' else format)
      in format @ ''\<newline>%s\<newline>'')"

definition printFlags_visit :: "world \<Rightarrow> helpers \<Rightarrow> string \<Rightarrow> Flag \<Rightarrow> string" where
  "printFlags_visit w h buf flag =
     (if length (flag_Deprecated flag) > 0 \<or> flag_Hidden flag then buf
      else let str = Sprintf w (printFlags_format w h flag)
                       [backslashify h (flag_DefValue flag), backslashify h (flag_Usage flag)]
           in buf @ TrimRight str '' \<newline>'')"

definition printFlags :: "world \<Rightarrow> helpers \<Rightarrow> string \<Rightarrow> Flag list \<Rightarrow> string" where
  "printFlags w h buf flags = foldl (printFlags_visit w h) buf flags"

subsection \<open>Cross references: \<^verbatim>\<open>generateSeeAlso\<close>\<close>

text \<open>
  Modelled from the spec: \<^verbatim>\<open>byName\<close>, the \<^verbatim>\<open>sort.Interface\<close> that \<^verbatim>\<open>man.go\<close> sorts
  with and that is declared elsewhere in the package, orders commands alphabetically by
  name. Go compares strings byte by byte, which is the lexicographic order of
  \<^typ>\<open>string\<close>. \<^verbatim>\<open>sort.Sort\<close> promises no order among commands of equal name; the
  entries below are built from names only, so they are the same for each such order
  (lemma \<open>sort_byName_any_order\<close>).

  \<^verbatim>\<open>sort.Sort\<close> works in place on the slice that \<^verbatim>\<open>Commands()\<close> returned, which is the
  library's own slice of children. The model keeps the tree as it is: the sorted list is
  a value of its own. The two agree when the children are already sorted by name and
  their names are distinct, which is how the library hands them out unless its command
  sorting is switched off; the concrete trees that the walk is run on below are of this
  kind.
\<close>

definition sort_byName :: "Command list \<Rightarrow> Command list" where
  "sort_byName cs = sort_key (\<lambda>c. cmd_Name (cmd_info c)) cs"

text \<open>The loop over the siblings (lines 379 to 385).\<close>

fun generateSeeAlso_siblings ::
  "world \<Rightarrow> Command \<Rightarrow> string \<Rightarrow> string \<Rightarrow> Command list \<Rightarrow> string list \<Rightarrow> string list" where
  "generateSeeAlso_siblings w cmd dashParentPath section [] seealsos = seealsos"
| "generateSeeAlso_siblings w cmd dashParentPath section (c # cs) seealsos =
     (if \<not> cmd_IsAvailableCommand (cmd_info c) \<or> cmd_IsAdditionalHelpTopicCommand (cmd_info c)
         \<or> cmd_Name (cmd_info c) = cmd_Name (cmd_info cmd)
      then generateSeeAlso_siblings w cmd dashParentPath section cs seealsos
      else generateSeeAlso_siblings w cmd dashParentPath section cs
             (seealsos @ [Sprintf w (''.BR %s'' @ BSL @ ''-%s (%s)'')
                            [dashParentPath, cmd_Name (cmd_info c), section]]))"

text \<open>The loop over the children (lines 391 to 398), on the flag and the list.\<close>

fun generateSeeAlso_children ::
  "world \<Rightarrow> string \<Rightarrow> string \<Rightarrow> Command list \<Rightarrow> bool \<times> string list \<Rightarrow> bool \<times> string list" where
  "generateSeeAlso_children w dashCommandName section [] acc = acc"
| "generateSeeAlso_children w dashCommandName section (c # cs) (hasSeeAlso, seealsos) =
     (if \<not> cmd_IsAvailableCommand (cmd_info c) \<or> cmd_IsAdditionalHelpTopicCommand (cmd_info c)
      then generateSeeAlso_children w dashCommandName section cs (hasSeeAlso, seealsos)
      else generateSeeAlso_children w dashCommandName section cs
             (True, seealsos @ [Sprintf w (''.BR %s'' @ BSL @ ''-%s (%s)'')
                                  [dashCommandName, cmd_Name (cmd_info c), section]]))"

text \<open>The flag and the list of entries as they are before the final \<^verbatim>\<open>strings.Join\<close>.\<close>

definition generateSeeAlso_entries ::
  "world \<Rightarrow> Command list \<Rightarrow> Command \<Rightarrow> string \<Rightarrow> bool \<times> string list" where
  "generateSeeAlso_entries w ancs cmd section =
     (let (hasSeeAlso, seealsos) =
            (case ancs of
               [] \<Rightarrow> (False, [])
             | parent # ps \<Rightarrow>
                 let parentPath = CommandPath ps parent;
                     dashParentPath = Replace_space parentPath (BSL @ ''-'');
                     seealso = Sprintf w ''.BR %s (%s)'' [dashParentPath, section];
                     siblings = sort_byName (cmd_Commands parent)
                 in (True, generateSeeAlso_siblings w cmd dashParentPath section siblings [seealso]));
          commandPath = CommandPath ancs cmd;
          dashCommandName = Replace_space commandPath (BSL @ ''-'');
          children = sort_byName (cmd_Commands cmd)
      in generateSeeAlso_children w dashCommandName section children (hasSeeAlso, seealsos))"

definition generateSeeAlso :: "world \<Rightarrow> Command list \<Rightarrow> Command \<Rightarrow> string \<Rightarrow> bool \<times> string" where
  "generateSeeAlso w ancs cmd section =
     (case generateSeeAlso_entries w ancs cmd section of
        (hasSeeAlso, seealsos) \<Rightarrow> (hasSeeAlso, Join seealsos '',\<newline>''))"

subsection \<open>The built-in template\<close>

text \<open>
  \<^verbatim>\<open>defaultManTemplate\<close> as the function \<^verbatim>\<open>text/template\<close> computes from it: the literal
  text between the actions is copied, \<^verbatim>\<open>{{ .Field }}\<close> prints the field, and
  \<^verbatim>\<open>{{ if .Flag }} ... {{ end }}\<close> prints its body when the flag is true.
\<close>

definition defaultManTemplate :: "manStruct \<Rightarrow> string" where
  "defaultManTemplate v =
     ''.TH '' @ DQ @ ProgramName v @ DQ @ '' '' @ DQ @ Section v @ DQ @ '' '' @ DQ @ CenterFooter v
       @ DQ @ '' '' @ DQ @ LeftFooter v @ DQ @ '' '' @ DQ @ CenterHeader v @ DQ @ '' \<newline>''
     @ ''.nh\<newline>''
     @ ''.ad l\<newline>''
     @ ''.SH NAME\<newline>''
     @ ''.PP\<newline>''
     @ ''zap'' @ BSL @ ''-publish '' @ BSL @ ''- Publish into MQTT\<newline>''
     @ ''.SH SYNOPSIS\<newline>''
     @ ''.PP\<newline>''
     @ ''.B '' @ CommandPath_field v @ ''\<newline>''
     @ SynFlags v @ ''\<newline>''
     @ ''.SH DESCRIPTION\<newline>''
     @ ''.PP\<newline>''
     @ Description v
     @ (if HasFlags v then ''\<newline>.SH OPTIONS\<newline>'' @ Flags v else [])
     @ (if HasInheritedFlags v
        then ''\<newline>.SH OPTIONS INHERITED FROM PARENT COMMANDS\<newline>'' @ InheritedFlags v else [])
     @ (if HasEnvironment v then ''\<newline>.SH Environment\<newline>.PP\<newline>'' @ Environment v else [])
     @ (if HasFiles v then ''\<newline>.SH FILES\<newline>.PP\<newline>'' @ Files v else [])
     @ (if HasBugs v then ''\<newline>.SH BUGS\<newline>.PP\<newline>'' @ Bugs v else [])
     @ (if HasExamples v then ''\<newline>.SH EXAMPLES\<newline>.PP\<newline>'' @ Examples v else [])
     @ (if HasAuthor v then ''\<newline>.SH AUTHOR\<newline>.PP\<newline>'' @ Author v else [])
     @ (if HasSeeAlso v then ''\<newline>.SH SEE ALSO\<newline>'' @ SeeAlsos v else [])
     @ ''\<newline>.'' @ DQ @ '' This file auto-generated by github.com/rjohnson/cobra-man\<newline>''"

text \<open>
  \<^verbatim>\<open>Template.Execute(w, values)\<close>: the text the template produces goes to the writer; a
  write that fails stops the execution with the writer's error.
\<close>

definition Execute :: "template \<Rightarrow> writer \<Rightarrow> manStruct \<Rightarrow> string \<times> error option" where
  "Execute t wr values =
     (case t values of
        (text, terr) \<Rightarrow>
          (case wr text of
             Some (n, werr) \<Rightarrow> (take n text, Some werr)
           | None \<Rightarrow> (text, terr)))"

subsection \<open>Assembling one page: \<^verbatim>\<open>generateManPage\<close>\<close>

text \<open>
  Lines 199 to 311 fill the page record, one commented block of statements after the
  other. Each block is a function on the record built so far.
\<close>

text \<open>Header fields (lines 202 to 221).\<close>

definition generateManPage_header :: "world \<Rightarrow> GenerateManOptions \<Rightarrow> manStruct \<Rightarrow> manStruct" where
  "generateManPage_header w opts values =
     (let values = values\<lparr>ProgramName := opt_ProgramName opts\<rparr>;
          values = values\<lparr>LeftFooter := opt_LeftFooter opts\<rparr>;
          values = values\<lparr>CenterHeader := opt_CenterHeader opts\<rparr>;
          values = values\<lparr>Section := opt_Section opts\<rparr>;
          values = (if Section values = [] then values\<lparr>Section := ''1''\<rparr> else values);
          date = (case opt_Date opts of None \<Rightarrow> time_Now w | Some d \<Rightarrow> d)
      in if opt_CenterFooter opts = []
         then values\<lparr>CenterFooter := time_Format w date\<rparr>
         else values\<lparr>CenterFooter := opt_CenterFooter opts\<rparr>)"

text \<open>NAME, and the synopsis flags (lines 223 to 231).\<close>

definition generateManPage_name ::
  "world \<Rightarrow> helpers \<Rightarrow> Command list \<Rightarrow> Command \<Rightarrow> manStruct \<Rightarrow> manStruct" where
  "generateManPage_name w h ancs cmd values =
     (let dashCommandName = Replace_space (CommandPath ancs cmd) ''-'';
          values = values\<lparr>Name := Sprintf w (''%s '' @ BSL @ ''- %s\<newline>'')
                                      [dashCommandName, backslashify h (cmd_Short (cmd_info cmd))]\<rparr>;
          flags = cmd_Flags (cmd_info cmd)
      in if flags \<noteq> [] then values\<lparr>SynFlags := printSynFlags w h [] flags\<rparr> else values)"

text \<open>SYNOPSIS and DESCRIPTION (lines 233 to 242).\<close>

definition generateManPage_synopsis :: "Command list \<Rightarrow> Command \<Rightarrow> manStruct \<Rightarrow> manStruct" where
  "generateManPage_synopsis ancs cmd values =
     (let values = values\<lparr>UseLine := cmd_UseLine (cmd_info cmd)\<rparr>
      in values\<lparr>CommandPath_field := CommandPath ancs cmd\<rparr>)"

definition generateManPage_description :: "Command \<Rightarrow> manStruct \<Rightarrow> manStruct" where
  "generateManPage_description cmd values =
     (let description = cmd_Long (cmd_info cmd);
          description = (if length description = 0 then cmd_Short (cmd_info cmd)
                         else description)
      in values\<lparr>Description := description\<rparr>)"

text \<open>Options (lines 244 to 262).\<close>

definition generateManPage_options ::
  "world \<Rightarrow> helpers \<Rightarrow> Command \<Rightarrow> GenerateManOptions \<Rightarrow> manStruct \<Rightarrow> manStruct" where
  "generateManPage_options w h cmd opts values =
     (let flags = (if opt_GenSeprateInheritedFlags opts then cmd_NonInheritedFlags (cmd_info cmd)
                   else cmd_Flags (cmd_info cmd));
          values = (if flags \<noteq> []
                    then values\<lparr>HasFlags := True, Flags := printFlags w h [] flags\<rparr>
                    else values)
      in if opt_GenSeprateInheritedFlags opts
         then values\<lparr>HasInheritedFlags := True,
                InheritedFlags := printFlags w h [] (cmd_NonInheritedFlags (cmd_info cmd))\<rparr>
         else values)"

text \<open>ENVIRONMENT section (lines 264 to 272).\<close>

definition generateManPage_environment ::
  "helpers \<Rightarrow> Command \<Rightarrow> GenerateManOptions \<Rightarrow> manStruct \<Rightarrow> manStruct" where
  "generateManPage_environment h cmd opts values =
     (if opt_Environment opts \<noteq> [] \<or> annotation cmd ''man-environment-section'' \<noteq> []
      then (if annotation cmd ''man-environment-section'' \<noteq> []
            then values\<lparr>HasEnvironment := True,
                   Environment := simpleToTroff h (annotation cmd ''man-environment-section'')\<rparr>
            else values\<lparr>HasEnvironment := True,
                   Environment := simpleToTroff h (opt_Environment opts)\<rparr>)
      else values)"

text \<open>FILES section (lines 274 to 282).\<close>

definition generateManPage_files ::
  "helpers \<Rightarrow> Command \<Rightarrow> GenerateManOptions \<Rightarrow> manStruct \<Rightarrow> manStruct" where
  "generateManPage_files h cmd opts values =
     (if opt_Files opts \<noteq> [] \<or> annotation cmd ''man-files-section'' \<noteq> []
      then (if annotation cmd ''man-files-section'' \<noteq> []
            then values\<lparr>HasFiles := True,
                   Files := simpleToTroff h (annotation cmd ''man-files-section'')\<rparr>
            else values\<lparr>HasFiles := True, Files := simpleToTroff h (opt_Files opts)\<rparr>)
      else values)"

text \<open>BUGS section (lines 284 to 292).\<close>

definition generateManPage_bugs ::
  "helpers \<Rightarrow> Command \<Rightarrow> GenerateManOptions \<Rightarrow> manStruct \<Rightarrow> manStruct" where
  "generateManPage_bugs h cmd opts values =
     (if opt_Bugs opts \<noteq> [] \<or> annotation cmd ''man-bugs-section'' \<noteq> []
      then (if annotation cmd ''man-bugs-section'' \<noteq> []
            then values\<lparr>HasBugs := True,
                   Bugs := simpleToTroff h (annotation cmd ''man-bugs-section'')\<rparr>
            else values\<lparr>HasBugs := True, Bugs := simpleToTroff h (opt_Bugs opts)\<rparr>)
      else values)"

text \<open>EXAMPLES section (lines 294 to 302); both assignments are to \<^verbatim>\<open>values.Bugs\<close>.\<close>

definition generateManPage_examples :: "helpers \<Rightarrow> Command \<Rightarrow> manStruct \<Rightarrow> manStruct" where
  "generateManPage_examples h cmd values =
     (if cmd_Example (cmd_info cmd) \<noteq> [] \<or> annotation cmd ''man-examples-section'' \<noteq> []
      then (if annotation cmd ''man-examples-section'' \<noteq> []
            then values\<lparr>HasExamples := True,
                   Bugs := simpleToTroff h (annotation cmd ''man-examples-section'')\<rparr>
            else values\<lparr>HasExamples := True,
                   Bugs := simpleToTroff h (cmd_Example (cmd_info cmd))\<rparr>)
      else values)"

text \<open>AUTHOR section (lines 304 to 308).\<close>

definition generateManPage_author :: "GenerateManOptions \<Rightarrow> manStruct \<Rightarrow> manStruct" where
  "generateManPage_author opts values =
     (if opt_Author opts \<noteq> []
      then values\<lparr>HasAuthor := True,
             Author := opt_Author opts
               @ ''\<newline>.PP\<newline>.SM Page auto-generated by rjohnson/cobra-man and spf13/cobra''\<rparr>
      else values)"

text \<open>SEE ALSO section (lines 310 and 311).\<close>

definition generateManPage_seeAlso :: "world \<Rightarrow> Command list \<Rightarrow> Command \<Rightarrow> manStruct \<Rightarrow> manStruct" where
  "generateManPage_seeAlso w ancs cmd values =
     (case generateSeeAlso w ancs cmd (Section values) of
        (hasSeeAlso, seeAlsos) \<Rightarrow> values\<lparr>HasSeeAlso := hasSeeAlso, SeeAlsos := seeAlsos\<rparr>)"

text \<open>The blocks in the order of the source, from the zero record.\<close>

definition generateManPage_values ::
  "world \<Rightarrow> helpers \<Rightarrow> Command list \<Rightarrow> Command \<Rightarrow> GenerateManOptions \<Rightarrow> manStruct" where
  "generateManPage_values w h ancs cmd opts =
     (let values = manStruct_zero;
          values = generateManPage_header w opts values;
          values = generateManPage_name w h ancs cmd values;
          values = generateManPage_synopsis ancs cmd values;
          values = generateManPage_description cmd values;
          values = generateManPage_options w h cmd opts values;
          values = generateManPage_environment h cmd opts values;
          values = generateManPage_files h cmd opts values;
          values = generateManPage_bugs h cmd opts values;
          values = generateManPage_examples h cmd values;
          values = generateManPage_author opts values
      in generateManPage_seeAlso w ancs cmd values)"

text \<open>
  Lines 313 to 326: the template is the built-in one unless \<^verbatim>\<open>UseTemplate\<close> is set, in
  which case the library parses it. The result is the text that reached the writer and
  the error returned.
\<close>

definition generateManPage ::
  "world \<Rightarrow> helpers \<Rightarrow> Command list \<Rightarrow> Command \<Rightarrow> GenerateManOptions \<Rightarrow> writer
     \<Rightarrow> string \<times> error option" where
  "generateManPage w h ancs cmd opts wr =
     (let values = generateManPage_values w h ancs cmd opts in
      case (if opt_UseTemplate opts \<noteq> [] then template_Parse w (opt_UseTemplate opts)
            else Inr (\<lambda>v. (defaultManTemplate v, None))) of
        Inl err \<Rightarrow> ([], Some err)
      | Inr parsedTemplate \<Rightarrow> Execute parsedTemplate wr values)"

subsection \<open>The tree walk: \<^verbatim>\<open>GenerateManPages\<close>\<close>

text \<open>
  Lines 145 to 162: the file of one command. A file that was created is recorded with
  the bytes written to it, also when the page generation returns an error.
\<close>

definition GenerateManPages_file ::
  "world \<Rightarrow> helpers \<Rightarrow> GenerateManOptions \<Rightarrow> Command list \<Rightarrow> Command \<Rightarrow> fs \<Rightarrow> fs \<times> error option" where
  "GenerateManPages_file w h opts ancs cmd st =
     (let section = (if opt_Section opts \<noteq> [] then opt_Section opts else ''1'');
          separator = (if opt_CommandSeparator opts \<noteq> [] then opt_CommandSeparator opts else ''-'');
          basename = Replace_space (CommandPath ancs cmd) separator;
          filename = filepath_Join w (opt_Directory opts) (basename @ ''.'' @ section)
      in case os_Create w st filename of
           Some err \<Rightarrow> (st, Some err)
         | None \<Rightarrow>
             (case generateManPage w h ancs cmd opts (file_Write w filename) of
                (written, r) \<Rightarrow> (st @ [(filename, written)], r)))"

text \<open>
  The options are passed by pointer and line 135 assigns to them, so the function
  returns the options next to the file system and the error. The second function is the
  loop of lines 137 to 144 over the children.
\<close>

fun GenerateManPages ::
  "world \<Rightarrow> helpers \<Rightarrow> GenerateManOptions \<Rightarrow> Command list \<Rightarrow> Command \<Rightarrow> fs
     \<Rightarrow> GenerateManOptions \<times> fs \<times> error option"
and GenerateManPages_loop ::
  "world \<Rightarrow> helpers \<Rightarrow> GenerateManOptions \<Rightarrow> Command list \<Rightarrow> Command list \<Rightarrow> fs
     \<Rightarrow> GenerateManOptions \<times> fs \<times> error option" where
  "GenerateManPages w h opts ancs (Command i cs) st =
     (let opts = (if opt_ProgramName opts = []
                  then opts\<lparr>opt_ProgramName := CommandPath ancs (Command i cs)\<rparr> else opts)
      in case GenerateManPages_loop w h opts (Command i cs # ancs) cs st of
           (opts, st, Some err) \<Rightarrow> (opts, st, Some err)
         | (opts, st, None) \<Rightarrow> (opts, GenerateManPages_file w h opts ancs (Command i cs) st))"
| "GenerateManPages_loop w h opts ancs [] st = (opts, st, None)"
| "GenerateManPages_loop w h opts ancs (c # cs) st =
     (if \<not> cmd_IsAvailableCommand (cmd_info c) \<or> cmd_IsAdditionalHelpTopicCommand (cmd_info c)
      then GenerateManPages_loop w h opts ancs cs st
      else (case GenerateManPages w h opts ancs c st of
              (opts, st, Some err) \<Rightarrow> (opts, st, Some err)
            | (opts, st, None) \<Rightarrow> GenerateManPages_loop w h opts ancs cs st))"

section \<open>Specification-side notions\<close>

text \<open>
  A child is visited when it is available and is not an additional help topic: the
  negation of the test that makes both loops \<^verbatim>\<open>continue\<close>.
\<close>

definition visible :: "Command \<Rightarrow> bool" where
  "visible c = (cmd_IsAvailableCommand (cmd_info c) \<and> \<not> cmd_IsAdditionalHelpTopicCommand (cmd_info c))"



text \<open>
  The path of a command's page as the specification words it: the output directory
  joined with the command path, its spaces replaced by the separator (a dash when none
  is configured), a dot, and the section (\<open>1\<close> when none is configured).
\<close>

definition page_path :: "world \<Rightarrow> GenerateManOptions \<Rightarrow> Command list \<times> Command \<Rightarrow> string" where
  "page_path w opts = (\<lambda>(ancs, cmd).
     filepath_Join w (opt_Directory opts)
       (Replace_space (CommandPath ancs cmd)
          (if opt_CommandSeparator opts = [] then ''-'' else opt_CommandSeparator opts)
        @ ''.'' @ (if opt_Section opts = [] then ''1'' else opt_Section opts)))"


text \<open>A cross reference to the page of a dash-joined command path in a section.\<close>

definition see_also_ref :: "string \<Rightarrow> string \<Rightarrow> string" where
  "see_also_ref dashPath section = ''.BR '' @ dashPath @ '' ('' @ section @ '')''"

definition dash_path :: "Command list \<Rightarrow> Command \<Rightarrow> string" where
  "dash_path ancs cmd = Replace_space (CommandPath ancs cmd) (BSL @ ''-'')"

text \<open>
  The cross references of a node as the specification lists them: the parent first, when
  there is one, then the parent's visible children other than the node, by name, then
  the node's visible children, by name. The node is recognised among its parent's
  children by its name.
\<close>

definition see_also_spec :: "Command list \<Rightarrow> Command \<Rightarrow> string \<Rightarrow> string list" where
  "see_also_spec ancs cmd section =
     (case ancs of
        [] \<Rightarrow> []
      | parent # ps \<Rightarrow>
          see_also_ref (dash_path ps parent) section
          # map (\<lambda>c. see_also_ref (dash_path ps parent @ BSL @ ''-'' @ cmd_Name (cmd_info c)) section)
              (sort_key (\<lambda>c. cmd_Name (cmd_info c))
                 (filter (\<lambda>c. visible c \<and> cmd_Name (cmd_info c) \<noteq> cmd_Name (cmd_info cmd))
                    (cmd_Commands parent))))
     @ map (\<lambda>c. see_also_ref (dash_path ancs cmd @ BSL @ ''-'' @ cmd_Name (cmd_info c)) section)
         (sort_key (\<lambda>c. cmd_Name (cmd_info c)) (filter visible (cmd_Commands cmd)))"

section \<open>Concrete inputs\<close>

text \<open>
  A world in which nothing fails. \<^verbatim>\<open>filepath.Join\<close> is given for a directory and a file
  name that are already clean; no format below contains a directive other than \<^verbatim>\<open>%s\<close>,
  so \<open>fmt_verb\<close> is never consulted, and no override template is configured, so
  \<open>template_Parse\<close> is not either.
\<close>

definition quiet_world :: world where
  "quiet_world = \<lparr>os_Create = (\<lambda>st path. None), file_Write = (\<lambda>path data. None),
     template_Parse = (\<lambda>s. Inl (TemplateParseError s)), time_Now = 0,
     time_Format = (\<lambda>t. ''Jan 1970''),
     filepath_Join = (\<lambda>dir file. if dir = [] then file else dir @ ''/'' @ file),
     fmt_verb = (\<lambda>fmt args. [])\<rparr>"


text \<open>
  Helpers for the examples: a dash is escaped by a backslash, and text is passed through
  as it is, which is what the package documents for text that starts with a dot. The
  examples use names without a dash and section texts that start with a dot.
\<close>

definition plain_helpers :: helpers where
  "plain_helpers = \<lparr>backslashify = (\<lambda>s. concat (map (\<lambda>c. if c = CHR ''-'' then BSL @ ''-'' else [c]) s)),
     simpleToTroff = (\<lambda>s. s)\<rparr>"

definition no_options :: GenerateManOptions where
  "no_options = \<lparr>opt_ProgramName = [], opt_Section = [], opt_CenterFooter = [],
     opt_Date = None, opt_LeftFooter = [], opt_CenterHeader = [], opt_Files = [],
     opt_Bugs = [], opt_Environment = [], opt_Author = [], opt_Directory = [],
     opt_CommandSeparator = [], opt_GenSeprateInheritedFlags = False, opt_UseTemplate = []\<rparr>"

text \<open>A runnable, visible command with a name, a summary and children, and nothing else.\<close>

definition plain_command :: "string \<Rightarrow> string \<Rightarrow> Command list \<Rightarrow> Command" where
  "plain_command name short cs =
     Command \<lparr>cmd_Name = name, cmd_Short = short, cmd_Long = [], cmd_Example = [],
       cmd_Annotations = Map.empty, cmd_UseLine = name, cmd_Flags = [],
       cmd_NonInheritedFlags = [], cmd_IsAvailableCommand = True,
       cmd_IsAdditionalHelpTopicCommand = False\<rparr> cs"

text \<open>The tree \<^verbatim>\<open>app\<close> with the single subcommand \<^verbatim>\<open>sub\<close>.\<close>

definition sub_command :: Command where
  "sub_command = plain_command ''sub'' ''a subcommand'' []"

definition app_command :: Command where
  "app_command = plain_command ''app'' ''an application'' [sub_command]"







definition named_options :: GenerateManOptions where
  "named_options = no_options\<lparr>opt_ProgramName := ''prog''\<rparr>"


text \<open>
  A command with a bugs annotation and an example, and options with a global bugs text.
\<close>

definition bugs_command :: Command where
  "bugs_command =
     Command \<lparr>cmd_Name = ''tool'', cmd_Short = ''a tool'', cmd_Long = [],
       cmd_Example = ''.B tool run'',
       cmd_Annotations = [''man-bugs-section'' \<mapsto> ''.B annotated bugs''],
       cmd_UseLine = ''tool'', cmd_Flags = [], cmd_NonInheritedFlags = [],
       cmd_IsAvailableCommand = True, cmd_IsAdditionalHelpTopicCommand = False\<rparr> []"

definition bugs_options :: GenerateManOptions where
  "bugs_options = no_options\<lparr>opt_Bugs := ''.B global bugs''\<rparr>"

text \<open>Flags: a hidden one, one with a deprecated shorthand, an ordinary one.\<close>

definition hidden_flag :: Flag where
  "hidden_flag = \<lparr>flag_Name = ''secret'', flag_Shorthand = ''s'', flag_Usage = ''internal'',
     flag_DefValue = ''false'', flag_NoOptDefVal = ''true'', flag_Deprecated = [],
     flag_Hidden = True, flag_ShorthandDeprecated = []\<rparr>"


definition verbose_flag :: Flag where
  "verbose_flag = \<lparr>flag_Name = ''verbose'', flag_Shorthand = ''v'', flag_Usage = ''more output'',
     flag_DefValue = ''false'', flag_NoOptDefVal = ''true'', flag_Deprecated = [],
     flag_Hidden = False, flag_ShorthandDeprecated = []\<rparr>"

text \<open>
  A command whose only flag is hidden and that has an example, and options that ask for
  a separate section of inherited flags.
\<close>

definition secretive_command :: Command where
  "secretive_command =
     Command \<lparr>cmd_Name = ''tool'', cmd_Short = ''a tool'', cmd_Long = [],
       cmd_Example = ''.B tool run'', cmd_Annotations = Map.empty, cmd_UseLine = ''tool'',
       cmd_Flags = [hidden_flag], cmd_NonInheritedFlags = [hidden_flag],
       cmd_IsAvailableCommand = True, cmd_IsAdditionalHelpTopicCommand = False\<rparr> []"

definition separate_options :: GenerateManOptions where
  "separate_options = no_options\<lparr>opt_GenSeprateInheritedFlags := True\<rparr>"

text \<open>
  A subcommand with a visible and a hidden flag, and options that set the environment,
  bugs and author texts and ask for a separate section of inherited flags.
\<close>

definition flagged_command :: Command where
  "flagged_command =
     Command \<lparr>cmd_Name = ''run'', cmd_Short = ''run it'', cmd_Long = [], cmd_Example = [],
       cmd_Annotations = Map.empty, cmd_UseLine = ''run'',
       cmd_Flags = [verbose_flag, hidden_flag], cmd_NonInheritedFlags = [verbose_flag, hidden_flag],
       cmd_IsAvailableCommand = True, cmd_IsAdditionalHelpTopicCommand = False\<rparr> []"

definition documented_options :: GenerateManOptions where
  "documented_options = no_options\<lparr>opt_Environment := ''.B HOME'', opt_Bugs := ''.B none known'',
     opt_Author := ''A. Author'', opt_GenSeprateInheritedFlags := True\<rparr>"

abbreviation documented_page :: manStruct where
  "documented_page \<equiv>
     generateManPage_values quiet_world plain_helpers [app_command] flagged_command documented_options"

text \<open>The NAME line of the built-in template.\<close>

definition default_name_line :: string where
  "default_name_line = ''zap'' @ BSL @ ''-publish '' @ BSL @ ''- Publish into MQTT\<newline>''"




section \<open>Properties of the tree walk\<close>


lemma CommandPath_Cons_nonempty: "CommandPath (p # ps) c \<noteq> []"
  by simp

lemma GenerateManPages_opts_stable:
  "opt_ProgramName opts \<noteq> [] \<Longrightarrow> fst (GenerateManPages w h opts ancs cmd st) = opts"
  "opt_ProgramName opts \<noteq> [] \<Longrightarrow> fst (GenerateManPages_loop w h opts ancs cs st) = opts"
proof (induction w h opts ancs cmd st and w h opts ancs cs st
       rule: GenerateManPages_GenerateManPages_loop.induct)
  case (1 w h opts ancs i cs st)
  then show ?case
    by (auto split: prod.splits option.splits)
next
  case (2 w h opts ancs st)
  then show ?case by simp
next
  case (3 w h opts ancs c cs st)
  show ?case
  proof (cases "\<not> cmd_IsAvailableCommand (cmd_info c) \<or> cmd_IsAdditionalHelpTopicCommand (cmd_info c)")
    case True
    with 3 show ?thesis by simp
  next
    case False
    obtain o1 st1 r1 where g: "GenerateManPages w h opts ancs c st = (o1, st1, r1)"
      by (cases "GenerateManPages w h opts ancs c st") auto
    from 3(2)[OF False] 3(4) g have o1: "o1 = opts" by simp
    show ?thesis
    proof (cases r1)
      case None
      from 3(3)[OF False g[symmetric] refl None] o1 3(4) g None False show ?thesis by simp
    next
      case (Some e)
      with g o1 False show ?thesis by simp
    qed
  qed
qed


lemma GenerateManPages_opts_name:
  "CommandPath ancs cmd \<noteq> [] \<Longrightarrow>
     fst (GenerateManPages w h opts ancs cmd st) =
       (if opt_ProgramName opts = [] then opts\<lparr>opt_ProgramName := CommandPath ancs cmd\<rparr> else opts)"
proof (cases cmd)
  case (Command i cs)
  assume ne: "CommandPath ancs cmd \<noteq> []"
  let ?o = "if opt_ProgramName opts = [] then opts\<lparr>opt_ProgramName := CommandPath ancs cmd\<rparr> else opts"
  have n: "opt_ProgramName ?o \<noteq> []" using ne by simp
  have "fst (GenerateManPages_loop w h ?o (cmd # ancs) cs st) = ?o"
    by (rule GenerateManPages_opts_stable(2)[OF n])
  then show ?thesis using Command
    by (auto split: prod.splits option.splits)
qed

lemma GenerateManPages_opts_frame:
  "\<exists>p. fst (GenerateManPages w h opts ancs cmd st) = opts\<lparr>opt_ProgramName := p\<rparr>"
  "\<exists>p. fst (GenerateManPages_loop w h opts ancs cs st) = opts\<lparr>opt_ProgramName := p\<rparr>"
proof (induction w h opts ancs cmd st and w h opts ancs cs st
       rule: GenerateManPages_GenerateManPages_loop.induct)
  case (1 w h opts ancs i cs st)
  let ?o = "if opt_ProgramName opts = [] then opts\<lparr>opt_ProgramName := CommandPath ancs (Command i cs)\<rparr> else opts"
  from 1[of ?o] obtain p where
    p: "fst (GenerateManPages_loop w h ?o (Command i cs # ancs) cs st) = ?o\<lparr>opt_ProgramName := p\<rparr>"
    by auto
  have "?o\<lparr>opt_ProgramName := p\<rparr> = opts\<lparr>opt_ProgramName := p\<rparr>" by simp
  with p have "fst (GenerateManPages_loop w h ?o (Command i cs # ancs) cs st) = opts\<lparr>opt_ProgramName := p\<rparr>"
    by simp
  then show ?case
    by (auto split: prod.splits option.splits simp: Let_def)
next
  case (2 w h opts ancs st)
  have "opts = opts\<lparr>opt_ProgramName := opt_ProgramName opts\<rparr>" by simp
  then show ?case by (metis GenerateManPages_loop.simps(1) fst_conv)
next
  case (3 w h opts ancs c cs st)
  show ?case
  proof (cases "\<not> cmd_IsAvailableCommand (cmd_info c) \<or> cmd_IsAdditionalHelpTopicCommand (cmd_info c)")
    case True
    with 3 show ?thesis by simp
  next
    case False
    obtain o1 st1 r1 where g: "GenerateManPages w h opts ancs c st = (o1, st1, r1)"
      by (cases "GenerateManPages w h opts ancs c st") auto
    from 3(2)[OF False] g obtain p where o1: "o1 = opts\<lparr>opt_ProgramName := p\<rparr>" by auto
    show ?thesis
    proof (cases r1)
      case None
      from 3(3)[OF False g[symmetric] refl None] obtain q where
        "fst (GenerateManPages_loop w h o1 ancs cs st1) = o1\<lparr>opt_ProgramName := q\<rparr>" by auto
      with o1 have "fst (GenerateManPages_loop w h o1 ancs cs st1) = opts\<lparr>opt_ProgramName := q\<rparr>"
        by simp
      with g None False show ?thesis by auto
    next
      case (Some e)
      with g o1 False show ?thesis by auto
    qed
  qed
qed


section \<open>Flag formatting\<close>










section \<open>Cross references\<close>

lemma Sprintf_parent_ref:
  "Sprintf w ''.BR %s (%s)'' [d, s] = see_also_ref d s"
  by (simp add: see_also_ref_def)

lemma Sprintf_child_ref:
  "Sprintf w (''.BR %s'' @ BSL @ ''-%s (%s)'') [d, n, s] = see_also_ref (d @ BSL @ ''-'' @ n) s"
  by (simp add: see_also_ref_def)

lemma generateSeeAlso_siblings_filter:
  "generateSeeAlso_siblings w cmd d section cs acc =
     acc @ map (\<lambda>c. see_also_ref (d @ BSL @ ''-'' @ cmd_Name (cmd_info c)) section)
             (filter (\<lambda>c. visible c \<and> cmd_Name (cmd_info c) \<noteq> cmd_Name (cmd_info cmd)) cs)"
proof (induction cs arbitrary: acc)
  case Nil
  show ?case by simp
next
  case (Cons c cs)
  show ?case
    by (simp only: generateSeeAlso_siblings.simps Cons.IH Sprintf_child_ref)
       (auto simp add: visible_def)
qed

lemma generateSeeAlso_children_filter:
  "generateSeeAlso_children w d section cs (b, acc) =
     (b \<or> (\<exists>c \<in> set cs. visible c),
      acc @ map (\<lambda>c. see_also_ref (d @ BSL @ ''-'' @ cmd_Name (cmd_info c)) section)
              (filter visible cs))"
proof (induction cs arbitrary: b acc)
  case Nil
  show ?case by simp
next
  case (Cons c cs)
  show ?case
    by (simp only: generateSeeAlso_children.simps Cons.IH Sprintf_child_ref)
       (auto simp add: visible_def)
qed

lemma sort_byName_any_order:
  assumes "mset ys = mset cs" and "sorted (map (\<lambda>c. cmd_Name (cmd_info c)) ys)"
  shows "map (\<lambda>c. cmd_Name (cmd_info c)) (filter P ys)
           = map (\<lambda>c. cmd_Name (cmd_info c)) (filter P (sort_byName cs))"
proof -
  let ?f = "\<lambda>c. cmd_Name (cmd_info c)"
  have "sorted (map ?f (filter P ys))"
    using assms(2) by (rule sorted_filter)
  moreover have "sorted (map ?f (filter P (sort_byName cs)))"
    unfolding sort_byName_def by (rule sorted_filter) simp
  moreover have "mset (map ?f (filter P ys)) = mset (map ?f (filter P (sort_byName cs)))"
    using assms(1) by (simp add: sort_byName_def)
  ultimately show ?thesis
    by (metis properties_for_sort)
qed

lemma sort_key_Nil_iff: "sort_key f xs = [] \<longleftrightarrow> xs = []"
  by (metis length_sort length_0_conv)




section \<open>The page record\<close>

lemma header_upd:
  "generateManPage_header w opts v =
     v\<lparr>ProgramName := opt_ProgramName opts, LeftFooter := opt_LeftFooter opts,
       CenterHeader := opt_CenterHeader opts,
       Section := (if opt_Section opts = [] then ''1'' else opt_Section opts),
       CenterFooter := (if opt_CenterFooter opts = []
                        then time_Format w (case opt_Date opts of None \<Rightarrow> time_Now w | Some d \<Rightarrow> d)
                        else opt_CenterFooter opts)\<rparr>"
  by (simp add: generateManPage_header_def Let_def)

lemma name_upd:
  "generateManPage_name w h ancs cmd v =
     v\<lparr>Name := Replace_space (CommandPath ancs cmd) ''-'' @ '' '' @ BSL @ ''- ''
                @ backslashify h (cmd_Short (cmd_info cmd)) @ ''\<newline>'',
       SynFlags := (if cmd_Flags (cmd_info cmd) \<noteq> []
                    then printSynFlags w h [] (cmd_Flags (cmd_info cmd)) else SynFlags v)\<rparr>"
  by (simp add: generateManPage_name_def Let_def)

lemma synopsis_upd:
  "generateManPage_synopsis ancs cmd v =
     v\<lparr>UseLine := cmd_UseLine (cmd_info cmd), CommandPath_field := CommandPath ancs cmd\<rparr>"
  by (simp add: generateManPage_synopsis_def Let_def)

lemma description_upd:
  "generateManPage_description cmd v =
     v\<lparr>Description := (if cmd_Long (cmd_info cmd) = [] then cmd_Short (cmd_info cmd)
                        else cmd_Long (cmd_info cmd))\<rparr>"
  by (simp add: generateManPage_description_def Let_def)

lemma options_upd:
  "generateManPage_options w h cmd opts v =
     v\<lparr>HasFlags := ((if opt_GenSeprateInheritedFlags opts then cmd_NonInheritedFlags (cmd_info cmd)
                      else cmd_Flags (cmd_info cmd)) \<noteq> [] \<or> HasFlags v),
       Flags := (if (if opt_GenSeprateInheritedFlags opts then cmd_NonInheritedFlags (cmd_info cmd)
                     else cmd_Flags (cmd_info cmd)) \<noteq> []
                 then printFlags w h []
                        (if opt_GenSeprateInheritedFlags opts then cmd_NonInheritedFlags (cmd_info cmd)
                         else cmd_Flags (cmd_info cmd))
                 else Flags v),
       HasInheritedFlags := (opt_GenSeprateInheritedFlags opts \<or> HasInheritedFlags v),
       InheritedFlags := (if opt_GenSeprateInheritedFlags opts
                          then printFlags w h [] (cmd_NonInheritedFlags (cmd_info cmd))
                          else InheritedFlags v)\<rparr>"
  by (simp add: generateManPage_options_def Let_def)

lemma environment_upd:
  "generateManPage_environment h cmd opts v =
     v\<lparr>HasEnvironment := (opt_Environment opts \<noteq> [] \<or> annotation cmd ''man-environment-section'' \<noteq> []
                            \<or> HasEnvironment v),
       Environment := (if annotation cmd ''man-environment-section'' \<noteq> []
                       then simpleToTroff h (annotation cmd ''man-environment-section'')
                       else if opt_Environment opts \<noteq> [] then simpleToTroff h (opt_Environment opts)
                       else Environment v)\<rparr>"
  by (simp add: generateManPage_environment_def)

lemma files_upd:
  "generateManPage_files h cmd opts v =
     v\<lparr>HasFiles := (opt_Files opts \<noteq> [] \<or> annotation cmd ''man-files-section'' \<noteq> [] \<or> HasFiles v),
       Files := (if annotation cmd ''man-files-section'' \<noteq> []
                 then simpleToTroff h (annotation cmd ''man-files-section'')
                 else if opt_Files opts \<noteq> [] then simpleToTroff h (opt_Files opts)
                 else Files v)\<rparr>"
  by (simp add: generateManPage_files_def)

lemma bugs_upd:
  "generateManPage_bugs h cmd opts v =
     v\<lparr>HasBugs := (opt_Bugs opts \<noteq> [] \<or> annotation cmd ''man-bugs-section'' \<noteq> [] \<or> HasBugs v),
       Bugs := (if annotation cmd ''man-bugs-section'' \<noteq> []
                then simpleToTroff h (annotation cmd ''man-bugs-section'')
                else if opt_Bugs opts \<noteq> [] then simpleToTroff h (opt_Bugs opts)
                else Bugs v)\<rparr>"
  by (simp add: generateManPage_bugs_def)

lemma examples_upd:
  "generateManPage_examples h cmd v =
     v\<lparr>HasExamples := (cmd_Example (cmd_info cmd) \<noteq> [] \<or> annotation cmd ''man-examples-section'' \<noteq> []
                         \<or> HasExamples v),
       Bugs := (if annotation cmd ''man-examples-section'' \<noteq> []
                then simpleToTroff h (annotation cmd ''man-examples-section'')
                else if cmd_Example (cmd_info cmd) \<noteq> [] then simpleToTroff h (cmd_Example (cmd_info cmd))
                else Bugs v)\<rparr>"
  by (simp add: generateManPage_examples_def)

lemma author_upd:
  "generateManPage_author opts v =
     v\<lparr>HasAuthor := (opt_Author opts \<noteq> [] \<or> HasAuthor v),
       Author := (if opt_Author opts \<noteq> []
                  then opt_Author opts
                    @ ''\<newline>.PP\<newline>.SM Page auto-generated by rjohnson/cobra-man and spf13/cobra''
                  else Author v)\<rparr>"
  by (simp add: generateManPage_author_def)

lemma seeAlso_upd:
  "generateManPage_seeAlso w ancs cmd v =
     v\<lparr>HasSeeAlso := fst (generateSeeAlso w ancs cmd (Section v)),
       SeeAlsos := snd (generateSeeAlso w ancs cmd (Section v))\<rparr>"
  by (simp add: generateManPage_seeAlso_def split: prod.splits)

lemmas values_upds = header_upd name_upd synopsis_upd description_upd options_upd
  environment_upd files_upd bugs_upd examples_upd author_upd seeAlso_upd

lemma generateManPage_values_record:
  "generateManPage_values w h ancs cmd opts =
     \<lparr>ProgramName = opt_ProgramName opts,
      Section = (if opt_Section opts = [] then ''1'' else opt_Section opts),
      CenterFooter = (if opt_CenterFooter opts = []
                      then time_Format w (case opt_Date opts of None \<Rightarrow> time_Now w | Some d \<Rightarrow> d)
                      else opt_CenterFooter opts),
      LeftFooter = opt_LeftFooter opts,
      CenterHeader = opt_CenterHeader opts,
      Name = Replace_space (CommandPath ancs cmd) ''-'' @ '' '' @ BSL @ ''- ''
               @ backslashify h (cmd_Short (cmd_info cmd)) @ ''\<newline>'',
      UseLine = cmd_UseLine (cmd_info cmd),
      CommandPath_field = CommandPath ancs cmd,
      Description = (if cmd_Long (cmd_info cmd) = [] then cmd_Short (cmd_info cmd)
                     else cmd_Long (cmd_info cmd)),
      SynFlags = (if cmd_Flags (cmd_info cmd) \<noteq> []
                  then printSynFlags w h [] (cmd_Flags (cmd_info cmd)) else []),
      HasFlags = ((if opt_GenSeprateInheritedFlags opts then cmd_NonInheritedFlags (cmd_info cmd)
                   else cmd_Flags (cmd_info cmd)) \<noteq> []),
      Flags = printFlags w h []
                (if opt_GenSeprateInheritedFlags opts then cmd_NonInheritedFlags (cmd_info cmd)
                 else cmd_Flags (cmd_info cmd)),
      HasInheritedFlags = opt_GenSeprateInheritedFlags opts,
      InheritedFlags = (if opt_GenSeprateInheritedFlags opts
                        then printFlags w h [] (cmd_NonInheritedFlags (cmd_info cmd)) else []),
      HasSeeAlso = fst (generateSeeAlso w ancs cmd
                          (if opt_Section opts = [] then ''1'' else opt_Section opts)),
      SeeAlsos = snd (generateSeeAlso w ancs cmd
                        (if opt_Section opts = [] then ''1'' else opt_Section opts)),
      HasAuthor = (opt_Author opts \<noteq> []),
      Author = (if opt_Author opts \<noteq> []
                then opt_Author opts
                  @ ''\<newline>.PP\<newline>.SM Page auto-generated by rjohnson/cobra-man and spf13/cobra''
                else []),
      HasEnvironment = (opt_Environment opts \<noteq> [] \<or> annotation cmd ''man-environment-section'' \<noteq> []),
      Environment = (if annotation cmd ''man-environment-section'' \<noteq> []
                     then simpleToTroff h (annotation cmd ''man-environment-section'')
                     else if opt_Environment opts \<noteq> [] then simpleToTroff h (opt_Environment opts)
                     else []),
      HasFiles = (opt_Files opts \<noteq> [] \<or> annotation cmd ''man-files-section'' \<noteq> []),
      Files = (if annotation cmd ''man-files-section'' \<noteq> []
               then simpleToTroff h (annotation cmd ''man-files-section'')
               else if opt_Files opts \<noteq> [] then simpleToTroff h (opt_Files opts)
               else []),
      HasBugs = (opt_Bugs opts \<noteq> [] \<or> annotation cmd ''man-bugs-section'' \<noteq> []),
      Bugs = (if annotation cmd ''man-examples-section'' \<noteq> []
              then simpleToTroff h (annotation cmd ''man-examples-section'')
              else if cmd_Example (cmd_info cmd) \<noteq> [] then simpleToTroff h (cmd_Example (cmd_info cmd))
              else if annotation cmd ''man-bugs-section'' \<noteq> []
              then simpleToTroff h (annotation cmd ''man-bugs-section'')
              else if opt_Bugs opts \<noteq> [] then simpleToTroff h (opt_Bugs opts) else []),
      HasExamples = (cmd_Example (cmd_info cmd) \<noteq> [] \<or> annotation cmd ''man-examples-section'' \<noteq> []),
      Examples = []\<rparr>"
  unfolding generateManPage_values_def Let_def values_upds manStruct_zero_def
  by (simp add: printFlags_def cong: if_cong)

section \<open>Optional sections and their presence flags\<close>

lemma Join_nonempty: "xs \<noteq> [] \<Longrightarrow> hd xs \<noteq> [] \<Longrightarrow> Join xs sep \<noteq> []"
  by (induction xs sep rule: Join.induct) auto

lemma see_also_spec_hd: "see_also_spec ancs cmd section \<noteq> [] \<Longrightarrow> hd (see_also_spec ancs cmd section) \<noteq> []"
  by (cases ancs; cases "sort_key (\<lambda>c. cmd_Name (cmd_info c)) (filter visible (cmd_Commands cmd))")
     (auto simp add: see_also_spec_def see_also_ref_def)

lemma generateSeeAlso_spec:
  "generateSeeAlso w ancs cmd section =
     (see_also_spec ancs cmd section \<noteq> [], Join (see_also_spec ancs cmd section) '',\<newline>'')"
proof (cases ancs)
  case Nil
  then show ?thesis
    by (auto simp add: generateSeeAlso_def generateSeeAlso_entries_def see_also_spec_def sort_byName_def
          generateSeeAlso_children_filter dash_path_def filter_sort sort_key_Nil_iff
          filter_empty_conv)
next
  case (Cons parent ps)
  then show ?thesis
    by (simp add: generateSeeAlso_def generateSeeAlso_entries_def see_also_spec_def sort_byName_def Let_def
          generateSeeAlso_children_filter generateSeeAlso_siblings_filter
          Sprintf_parent_ref dash_path_def filter_sort del: Sprintf.simps)
qed

lemma generateSeeAlso_text_iff:
  "fst (generateSeeAlso w ancs cmd section) \<longleftrightarrow> snd (generateSeeAlso w ancs cmd section) \<noteq> []"
  using Join_nonempty [OF _ see_also_spec_hd, of ancs cmd "section"]
  by (auto simp add: generateSeeAlso_spec)

text \<open>
  Claim C1, at a command with a bugs annotation and an example, under options with a
  global bugs text: the \<^verbatim>\<open>Bugs\<close> field of the page record holds the sanitized example, not
  the sanitized annotation, and the \<^verbatim>\<open>Examples\<close> field is empty although \<^verbatim>\<open>HasExamples\<close>
  is set.
\<close>

theorem bugs_field_holds_example:
  "annotation bugs_command ''man-bugs-section'' = ''.B annotated bugs''
   \<and> opt_Bugs bugs_options = ''.B global bugs''
   \<and> cmd_Example (cmd_info bugs_command) = ''.B tool run''
   \<and> Bugs (generateManPage_values w h [] bugs_command bugs_options) = simpleToTroff h ''.B tool run''
   \<and> HasBugs (generateManPage_values w h [] bugs_command bugs_options)
   \<and> HasExamples (generateManPage_values w h [] bugs_command bugs_options)
   \<and> Examples (generateManPage_values w h [] bugs_command bugs_options) = []"
  by (simp add: generateManPage_values_record annotation_def bugs_command_def bugs_options_def
        no_options_def)

text \<open>
  Claim C2 fails as stated: for a command whose only flag is hidden and that has an
  example, under options that split off the inherited flags, three presence flags are
  true over an empty text and \<^verbatim>\<open>HasBugs\<close> is false over a text that is not empty.
\<close>

theorem presence_flags_counterexample:
  "HasFlags (generateManPage_values quiet_world plain_helpers [] secretive_command separate_options)
   \<and> Flags (generateManPage_values quiet_world plain_helpers [] secretive_command separate_options) = []
   \<and> HasInheritedFlags (generateManPage_values quiet_world plain_helpers [] secretive_command separate_options)
   \<and> InheritedFlags (generateManPage_values quiet_world plain_helpers [] secretive_command separate_options) = []
   \<and> HasExamples (generateManPage_values quiet_world plain_helpers [] secretive_command separate_options)
   \<and> Examples (generateManPage_values quiet_world plain_helpers [] secretive_command separate_options) = []
   \<and> \<not> HasBugs (generateManPage_values quiet_world plain_helpers [] secretive_command separate_options)
   \<and> Bugs (generateManPage_values quiet_world plain_helpers [] secretive_command separate_options) \<noteq> []"
  by (simp add: generateManPage_values_record annotation_def secretive_command_def
        separate_options_def no_options_def plain_helpers_def hidden_flag_def printFlags_def
        printFlags_visit_def)

text \<open>
  Claim C2, amended. When the sanitizer maps no text that is not empty to the empty
  text: the presence flags of the environment, files, author and see-also sections are
  true exactly when the section's text is not empty, and so is the flag of the bugs
  section for a command without example text and examples annotation. \<^verbatim>\<open>HasFlags\<close> is
  true exactly when the flag set that is rendered holds a flag, \<^verbatim>\<open>HasInheritedFlags\<close>
  exactly when the options ask for a separate section, and each of the two is true
  whenever its text is not empty.
\<close>

theorem presence_flags_amended:
  assumes "\<forall>s. s \<noteq> [] \<longrightarrow> simpleToTroff h s \<noteq> []"
    and "v = generateManPage_values w h ancs cmd opts"
  shows "(HasEnvironment v \<longleftrightarrow> Environment v \<noteq> [])
    \<and> (HasFiles v \<longleftrightarrow> Files v \<noteq> [])
    \<and> (HasAuthor v \<longleftrightarrow> Author v \<noteq> [])
    \<and> (HasSeeAlso v \<longleftrightarrow> SeeAlsos v \<noteq> [])
    \<and> (cmd_Example (cmd_info cmd) = [] \<and> annotation cmd ''man-examples-section'' = [] \<longrightarrow>
         (HasBugs v \<longleftrightarrow> Bugs v \<noteq> []))
    \<and> (HasFlags v \<longleftrightarrow>
         (if opt_GenSeprateInheritedFlags opts then cmd_NonInheritedFlags (cmd_info cmd)
          else cmd_Flags (cmd_info cmd)) \<noteq> [])
    \<and> (Flags v \<noteq> [] \<longrightarrow> HasFlags v)
    \<and> (HasInheritedFlags v \<longleftrightarrow> opt_GenSeprateInheritedFlags opts)
    \<and> (InheritedFlags v \<noteq> [] \<longrightarrow> HasInheritedFlags v)"
proof -
  have env: "HasEnvironment v \<longleftrightarrow> Environment v \<noteq> []"
    using assms by (simp add: generateManPage_values_record)
  have files: "HasFiles v \<longleftrightarrow> Files v \<noteq> []"
    using assms by (simp add: generateManPage_values_record)
  have author: "HasAuthor v \<longleftrightarrow> Author v \<noteq> []"
    using assms(2) by (simp add: generateManPage_values_record)
  have see: "HasSeeAlso v \<longleftrightarrow> SeeAlsos v \<noteq> []"
    using assms(2) generateSeeAlso_text_iff [of w ancs cmd]
    by (simp add: generateManPage_values_record)
  have bugs: "cmd_Example (cmd_info cmd) = [] \<and> annotation cmd ''man-examples-section'' = [] \<longrightarrow>
         (HasBugs v \<longleftrightarrow> Bugs v \<noteq> [])"
    using assms by (simp add: generateManPage_values_record)
  have flags: "HasFlags v \<longleftrightarrow>
         (if opt_GenSeprateInheritedFlags opts then cmd_NonInheritedFlags (cmd_info cmd)
          else cmd_Flags (cmd_info cmd)) \<noteq> []"
    using assms(2) by (simp add: generateManPage_values_record)
  have flags_text: "Flags v \<noteq> [] \<longrightarrow> HasFlags v"
    using assms(2) by (auto simp add: generateManPage_values_record printFlags_def)
  have inh: "HasInheritedFlags v \<longleftrightarrow> opt_GenSeprateInheritedFlags opts"
    using assms(2) by (simp add: generateManPage_values_record)
  have inh_text: "InheritedFlags v \<noteq> [] \<longrightarrow> HasInheritedFlags v"
    using assms(2) by (simp add: generateManPage_values_record)
  from env files author see bugs flags flags_text inh inh_text show ?thesis
    by blast
qed

theorem presence_flags_amended_witness:
  "HasEnvironment documented_page \<and> Environment documented_page \<noteq> []
   \<and> \<not> HasFiles documented_page \<and> Files documented_page = []
   \<and> HasAuthor documented_page \<and> Author documented_page \<noteq> []
   \<and> HasSeeAlso documented_page \<and> SeeAlsos documented_page \<noteq> []
   \<and> HasBugs documented_page \<and> Bugs documented_page \<noteq> []
   \<and> Flags documented_page \<noteq> [] \<and> HasFlags documented_page
   \<and> InheritedFlags documented_page \<noteq> [] \<and> HasInheritedFlags documented_page"
proof -
  have san: "\<forall>s. s \<noteq> [] \<longrightarrow> simpleToTroff plain_helpers s \<noteq> []"
    by (simp add: plain_helpers_def)
  have ex: "cmd_Example (cmd_info flagged_command) = []
              \<and> annotation flagged_command ''man-examples-section'' = []"
    by (simp add: flagged_command_def annotation_def)
  have b: "HasEnvironment documented_page" "\<not> HasFiles documented_page"
    "HasAuthor documented_page" "HasSeeAlso documented_page" "HasBugs documented_page"
    by code_simp+
  have f: "Flags documented_page \<noteq> []" "InheritedFlags documented_page \<noteq> []"
    by code_simp+
  from presence_flags_amended [OF san refl, of quiet_world "[app_command]" flagged_command documented_options]
       ex b f
  show ?thesis by (simp add: documented_options_def no_options_def flagged_command_def)
qed

text \<open>
  Claim C10. Without a template override, and when the write does not fail, the page
  that \<^verbatim>\<open>generateManPage\<close> writes contains the line
  \<^verbatim>\<open>zap\-publish \- Publish into MQTT\<close> of the built-in template, for every command. The
  \<^verbatim>\<open>Name\<close> field is computed, the dash-joined path, \<^verbatim>\<open> \- \<close> and the escaped summary, and
  the built-in template does not depend on it.
\<close>

theorem default_template_name_line:
  assumes "opt_UseTemplate opts = []"
    and "wr (defaultManTemplate (generateManPage_values w h ancs cmd opts)) = None"
  shows "snd (generateManPage w h ancs cmd opts wr) = None
    \<and> sublist (''.SH NAME\<newline>.PP\<newline>'' @ default_name_line @ ''.SH SYNOPSIS\<newline>'')
         (fst (generateManPage w h ancs cmd opts wr))
    \<and> Name (generateManPage_values w h ancs cmd opts) =
         Replace_space (CommandPath ancs cmd) ''-'' @ '' '' @ BSL @ ''- ''
           @ backslashify h (cmd_Short (cmd_info cmd)) @ ''\<newline>''
    \<and> (\<forall>n. defaultManTemplate ((generateManPage_values w h ancs cmd opts)\<lparr>Name := n\<rparr>)
             = defaultManTemplate (generateManPage_values w h ancs cmd opts))"
proof -
  let ?v = "generateManPage_values w h ancs cmd opts"
  let ?pre = "''.TH '' @ DQ @ ProgramName ?v @ DQ @ '' '' @ DQ @ Section ?v @ DQ @ '' '' @ DQ
       @ CenterFooter ?v @ DQ @ '' '' @ DQ @ LeftFooter ?v @ DQ @ '' '' @ DQ @ CenterHeader ?v
       @ DQ @ '' \<newline>'' @ ''.nh\<newline>'' @ ''.ad l\<newline>''"
  have g: "generateManPage w h ancs cmd opts wr = (defaultManTemplate ?v, None)"
    using assms by (simp add: generateManPage_def Execute_def)
  have "\<exists>post. defaultManTemplate ?v =
          ?pre @ (''.SH NAME\<newline>.PP\<newline>'' @ default_name_line @ ''.SH SYNOPSIS\<newline>'') @ post"
    unfolding defaultManTemplate_def default_name_line_def by simp
  then have s: "sublist (''.SH NAME\<newline>.PP\<newline>'' @ default_name_line @ ''.SH SYNOPSIS\<newline>'')
                  (defaultManTemplate ?v)"
    unfolding sublist_def by blast
  have n: "Name ?v = Replace_space (CommandPath ancs cmd) ''-'' @ '' '' @ BSL @ ''- ''
           @ backslashify h (cmd_Short (cmd_info cmd)) @ ''\<newline>''"
    by (simp add: generateManPage_values_record)
  have i: "\<forall>n. defaultManTemplate (?v\<lparr>Name := n\<rparr>) = defaultManTemplate ?v"
    by (simp add: defaultManTemplate_def)
  from g s n i show ?thesis by simp
qed

theorem default_template_name_line_witness:
  "snd (generateManPage quiet_world plain_helpers [] app_command no_options (file_Write quiet_world ''app.1'')) = None
   \<and> sublist (''.SH NAME\<newline>.PP\<newline>'' @ default_name_line @ ''.SH SYNOPSIS\<newline>'')
        (fst (generateManPage quiet_world plain_helpers [] app_command no_options (file_Write quiet_world ''app.1'')))
   \<and> Name (generateManPage_values quiet_world plain_helpers [] app_command no_options)
        = ''app '' @ BSL @ ''- an application\<newline>''"
proof -
  have u: "opt_UseTemplate no_options = []"
    by (simp add: no_options_def)
  have wr: "file_Write quiet_world ''app.1''
              (defaultManTemplate (generateManPage_values quiet_world plain_helpers [] app_command no_options)) = None"
    by (simp add: quiet_world_def)
  have n: "Replace_space (CommandPath [] app_command) ''-'' @ '' '' @ BSL @ ''- ''
           @ backslashify plain_helpers (cmd_Short (cmd_info app_command)) @ ''\<newline>''
         = ''app '' @ BSL @ ''- an application\<newline>''"
    by code_simp
  from default_template_name_line
         [where opts = no_options and wr = "file_Write quiet_world ''app.1''" and w = quiet_world
            and h = plain_helpers and ancs = "[]" and cmd = app_command, OF u wr] n
  show ?thesis by simp
qed

section \<open>The files that the walk creates\<close>

lemma page_path_ProgramName [simp]:
  "page_path w (opts\<lparr>opt_ProgramName := p\<rparr>) = page_path w opts"
  by (simp add: page_path_def)

lemma page_path_filename:
  "filepath_Join w (opt_Directory opts)
     (Replace_space (CommandPath ancs cmd)
        (if opt_CommandSeparator opts \<noteq> [] then opt_CommandSeparator opts else ''-'')
      @ ''.'' @ (if opt_Section opts \<noteq> [] then opt_Section opts else ''1''))
   = page_path w opts (ancs, cmd)"
  by (simp add: page_path_def)

lemma GenerateManPages_file_page_path:
  "GenerateManPages_file w h opts ancs cmd st =
     (case os_Create w st (page_path w opts (ancs, cmd)) of
        Some err \<Rightarrow> (st, Some err)
      | None \<Rightarrow>
          (case generateManPage w h ancs cmd opts (file_Write w (page_path w opts (ancs, cmd))) of
             (written, r) \<Rightarrow> (st @ [(page_path w opts (ancs, cmd), written)], r)))"
  by (simp only: GenerateManPages_file_def Let_def page_path_filename)








section \<open>Order of the walk\<close>




section \<open>Visited commands, file names, options\<close>






text \<open>
  Claim C8 fails as stated: called with an empty program name on the root \<^verbatim>\<open>app\<close>,
  \<^verbatim>\<open>GenerateManPages\<close> leaves \<^verbatim>\<open>app\<close> in the \<^verbatim>\<open>ProgramName\<close> field of the caller's options.
\<close>

theorem options_mutated_counterexample:
  "opt_ProgramName no_options = []
   \<and> opt_ProgramName (fst (GenerateManPages quiet_world plain_helpers no_options [] app_command []))
       = ''app''"
  by code_simp

text \<open>
  Claim C8, amended. \<^verbatim>\<open>GenerateManPages\<close> changes no field of the options other than
  \<^verbatim>\<open>ProgramName\<close>. A program name that is not empty is kept; an empty one is replaced by
  the command path of the command the function is called on, when that path is not
  empty.
\<close>

theorem options_frame:
  assumes "GenerateManPages w h opts ancs cmd st = (opts', st', r)"
  shows "opts' = opts\<lparr>opt_ProgramName := opt_ProgramName opts'\<rparr>
    \<and> (opt_ProgramName opts \<noteq> [] \<longrightarrow> opts' = opts)
    \<and> (opt_ProgramName opts = [] \<and> CommandPath ancs cmd \<noteq> [] \<longrightarrow>
         opt_ProgramName opts' = CommandPath ancs cmd)"
proof -
  from GenerateManPages_opts_frame(1) [of w h opts ancs cmd st] assms
  obtain p where "opts' = opts\<lparr>opt_ProgramName := p\<rparr>" by auto
  then have f: "opts' = opts\<lparr>opt_ProgramName := opt_ProgramName opts'\<rparr>" by simp
  have s: "opt_ProgramName opts \<noteq> [] \<longrightarrow> opts' = opts"
    using GenerateManPages_opts_stable(1) [of opts w h ancs cmd st] assms by auto
  have n: "opt_ProgramName opts = [] \<and> CommandPath ancs cmd \<noteq> [] \<longrightarrow>
         opt_ProgramName opts' = CommandPath ancs cmd"
    using GenerateManPages_opts_name [of ancs cmd w h opts st] assms by auto
  from f s n show ?thesis by blast
qed

theorem options_frame_witness:
  "fst (GenerateManPages quiet_world plain_helpers named_options [] app_command []) = named_options
   \<and> fst (GenerateManPages quiet_world plain_helpers no_options [] app_command [])
       = no_options\<lparr>opt_ProgramName := ''app''\<rparr>"
proof -
  let ?g = "GenerateManPages quiet_world plain_helpers named_options [] app_command []"
  let ?k = "GenerateManPages quiet_world plain_helpers no_options [] app_command []"
  have g: "?g = (fst ?g, fst (snd ?g), snd (snd ?g))" "?k = (fst ?k, fst (snd ?k), snd (snd ?k))"
    by simp_all
  have n: "opt_ProgramName named_options \<noteq> []" "opt_ProgramName no_options = []"
    "CommandPath [] app_command = ''app''"
    by (simp_all add: named_options_def no_options_def app_command_def plain_command_def)
  from options_frame [OF g(1)] options_frame [OF g(2)] n show ?thesis
    by (metis list.distinct(1))
qed

section \<open>Errors\<close>

lemma GenerateManPages_file_error_cases:
  "GenerateManPages_file w h opts ancs cmd st = (st', Some e) \<longleftrightarrow>
     (os_Create w st (page_path w opts (ancs, cmd)) = Some e \<and> st' = st)
     \<or> (os_Create w st (page_path w opts (ancs, cmd)) = None
        \<and> opt_UseTemplate opts \<noteq> [] \<and> template_Parse w (opt_UseTemplate opts) = Inl e
        \<and> st' = st @ [(page_path w opts (ancs, cmd), [])])
     \<or> (os_Create w st (page_path w opts (ancs, cmd)) = None
        \<and> (\<exists>t out terr k.
              (if opt_UseTemplate opts \<noteq> [] then template_Parse w (opt_UseTemplate opts)
               else Inr (\<lambda>v. (defaultManTemplate v, None))) = Inr t
              \<and> t (generateManPage_values w h ancs cmd opts) = (out, terr)
              \<and> ((file_Write w (page_path w opts (ancs, cmd)) out = Some (k, e)
                   \<and> st' = st @ [(page_path w opts (ancs, cmd), take k out)])
                 \<or> (file_Write w (page_path w opts (ancs, cmd)) out = None \<and> terr = Some e
                   \<and> st' = st @ [(page_path w opts (ancs, cmd), out)]))))"
proof (cases "os_Create w st (page_path w opts (ancs, cmd))")
  case (Some err)
  have "GenerateManPages_file w h opts ancs cmd st = (st, Some err)"
    by (simp only: GenerateManPages_file_page_path Some option.case)
  with Some show ?thesis by auto
next
  case None
  let ?p = "page_path w opts (ancs, cmd)"
  let ?parsed = "if opt_UseTemplate opts \<noteq> [] then template_Parse w (opt_UseTemplate opts)
               else Inr (\<lambda>v. (defaultManTemplate v, None))"
  have f: "GenerateManPages_file w h opts ancs cmd st =
     (case generateManPage w h ancs cmd opts (file_Write w ?p) of
        (written, r) \<Rightarrow> (st @ [(?p, written)], r))"
    by (simp only: GenerateManPages_file_page_path None option.case)
  show ?thesis
  proof (cases ?parsed)
    case (Inl err)
    then have "generateManPage w h ancs cmd opts (file_Write w ?p) = ([], Some err)"
      by (simp add: generateManPage_def)
    with f have "GenerateManPages_file w h opts ancs cmd st = (st @ [(?p, [])], Some err)"
      by simp
    with None Inl show ?thesis by (auto split: if_splits)
  next
    case (Inr t)
    obtain out terr where t: "t (generateManPage_values w h ancs cmd opts) = (out, terr)"
      by (cases "t (generateManPage_values w h ancs cmd opts)")
    show ?thesis
    proof (cases "file_Write w ?p out")
      case wn: None
      with Inr t have "generateManPage w h ancs cmd opts (file_Write w ?p) = (out, terr)"
        by (simp add: generateManPage_def Execute_def)
      with f have "GenerateManPages_file w h opts ancs cmd st = (st @ [(?p, out)], terr)"
        by simp
      with None Inr t wn show ?thesis by (auto split: if_splits)
    next
      case (Some ke)
      obtain k werr where ke: "ke = (k, werr)" by (cases ke)
      with Some Inr t have "generateManPage w h ancs cmd opts (file_Write w ?p) = (take k out, Some werr)"
        by (simp add: generateManPage_def Execute_def)
      with f have "GenerateManPages_file w h opts ancs cmd st = (st @ [(?p, take k out)], Some werr)"
        by simp
      with None Inr t Some ke show ?thesis by (auto split: if_splits)
    qed
  qed
qed



end
